theory Spec2Isabelle
  imports Main "HOL-Library.Sublist"
begin

section \<open>The mock machine manager server (mock\_manager\_server.py)\<close>

text \<open>
  A shallow embedding of the two gRPC servicers of the mock server and of the shutdown
  path of \<open>serve\<close>. The embedding is sequential: one handler call, or the shutdown
  branch, runs from start to end on a state value; the locks of the registry are not
  part of it. Python's \<open>context\<close> argument is the field \<open>servicer_context\<close> of the
  state a handler runs on.
\<close>

subsection \<open>Messages, status codes, exceptions, the log\<close>

text \<open>The members of \<open>grpc.StatusCode\<close> the handlers set.\<close>

datatype status_code = UNAVAILABLE | INVALID_ARGUMENT | UNKNOWN

text \<open>
  The servicer context of one call: \<open>set_details\<close> and \<open>set_code\<close> write the two
  fields, which are \<open>None\<close> as long as the handler has not set them.
\<close>

record ServicerContext =
  details :: "string option"
  code :: "status_code option"

definition fresh_context :: ServicerContext where
  "fresh_context = \<lparr>details = None, code = None\<rparr>"

text \<open>
  The exception classes the handlers name in their \<open>except\<close> clauses
  (\<open>SessionIdException\<close>, \<open>AddressException\<close>, \<open>RollbackException\<close> of
  session\_registry, \<open>CycleException\<close> of utils), \<open>KeyError\<close> for a failed
  dictionary lookup, \<open>OtherException\<close> for an instance of any other subclass of
  \<open>Exception\<close>, and the two classes Python derives from \<open>BaseException\<close> and not
  from \<open>Exception\<close> that a call can end with: \<open>SystemExit\<close> (raised by
  \<open>sys.exit\<close>) and \<open>KeyboardInterrupt\<close> (raised by \<open>handle_sigterm\<close>, line 34). An
  exception value carries its class and its message, the text of \<open>str(e)\<close>. The
  classes of session\_registry and utils are taken as unrelated subclasses of
  \<open>Exception\<close>: the modules that declare them are not part of the sources.
\<close>

datatype exn_class =
  SessionIdException | AddressException | CycleException | RollbackException
  | KeyError | OtherException | SystemExit | KeyboardInterrupt

text \<open>\<open>isinstance(e, Exception)\<close>, by the class of \<open>e\<close>.\<close>

fun is_Exception :: "exn_class \<Rightarrow> bool" where
  "is_Exception SystemExit = False"
| "is_Exception KeyboardInterrupt = False"
| "is_Exception _ = True"

datatype exn = Exn exn_class string

fun class_of :: "exn \<Rightarrow> exn_class" where
  "class_of (Exn c m) = c"

fun str_exn :: "exn \<Rightarrow> string" where
  "str_exn (Exn c m) = m"

text \<open>
  What is handed to the logger: a formatted text, an exception object
  (\<open>LOGGER.error(e)\<close>), or the generic handler's text made of an exception and
  \<open>traceback.format_exc()\<close>.
\<close>

datatype log_level = DEBUG | INFO | ERROR

datatype log_msg =
  Text string
  | Exc exn
  | Exc_with_traceback exn

text \<open>
  The observable events of a run, in order: a log record, a call of
  \<open>utils.shutdown_cartesi_machine_server(session_id, address)\<close>, and
  \<open>server.stop(0)\<close>.
\<close>

datatype event =
  Log log_level log_msg
  | Shutdown_machine string string
  | Server_stop

text \<open>The protobuf messages the handlers build and receive.\<close>

type_synonym byte = nat

record Hash =
  content :: "byte list"

datatype RunResponse = RunResponse

datatype SessionStepResponse = SessionStepResponse

datatype Void = Void

record SessionRunResult =
  summaries :: "RunResponse list"
  hashes :: "Hash list"

text \<open>
  Modelled from the spec: \<open>utils.make_session_run_result\<close> is not part of the sources.
  The spec describes the result of Session Run as a sequence of per-step summaries and a
  parallel sequence of state fingerprints; the helper is taken to pack its two arguments
  into these two fields unchanged.
\<close>

definition make_session_run_result :: "RunResponse list \<Rightarrow> Hash list \<Rightarrow> SessionRunResult" where
  "make_session_run_result summaries_arg hashes_arg = \<lparr>summaries = summaries_arg, hashes = hashes_arg\<rparr>"

text \<open>
  The generated protobuf modules (\<open>cartesi_machine_pb2\<close>, \<open>machine_manager_pb2\<close>) and
  \<open>utils\<close> are not part of the sources. The handlers take what they call of them as
  parameters: for each message constructor and for \<open>utils.make_session_run_result\<close>
  the outcome of the call, which is the exception it raises (\<open>Inl\<close>) or the value it
  returns (\<open>Inr\<close>).
\<close>

record collaborators =
  pb2_Hash :: "byte list \<Rightarrow> exn + Hash"
  pb2_RunResponse :: "exn + RunResponse"
  pb2_SessionStepResponse :: "exn + SessionStepResponse"
  pb2_Void :: "exn + Void"
  utils_make_session_run_result :: "RunResponse list \<Rightarrow> Hash list \<Rightarrow> exn + SessionRunResult"

text \<open>
  Modelled from the spec: the collaborators of a server whose generated modules and
  helper work. A constructor builds its message from its argument, the helper packs its
  two arguments, and none of them raises.
\<close>

definition modelled_collaborators :: collaborators where
  "modelled_collaborators =
     \<lparr>pb2_Hash = (\<lambda>c. Inr \<lparr>content = c\<rparr>),
      pb2_RunResponse = Inr RunResponse,
      pb2_SessionStepResponse = Inr SessionStepResponse,
      pb2_Void = Inr Void,
      utils_make_session_run_result = (\<lambda>s h. Inr (make_session_run_result s h))\<rparr>"

record session_request =
  session_id :: string

record 'm NewSessionRequest = session_request +
  machine :: 'm

record SessionRunRequest = session_request +
  final_cycles :: "int list"

record SessionStepRequest = session_request +
  initial_cycle :: int

record AddressRequest = session_request +
  address :: string

text \<open>
  The command line. The parser declares three options: \<open>--address\<close> and \<open>--port\<close>
  store their argument (defaults \<open>LISTENING_ADDRESS\<close> and \<open>LISTENING_PORT\<close>), and
  \<open>--defective\<close> has the action \<open>store_true\<close>, so its value is \<open>False\<close> unless the
  option occurs. A command line is the list of the options that occur on it.
\<close>

datatype cli_option = Opt_address string | Opt_port string | Opt_defective

record Namespace =
  address :: string
  port :: string
  defective :: bool

subsection \<open>The session registry\<close>

text \<open>
  Modelled from the spec: the module session\_registry is not part of the sources. The
  server reads and writes three things of a \<open>SessionRegistryManager\<close>: the flag
  \<open>shutting_down\<close>, the dictionary \<open>registry\<close> from session id to session entry, and
  of an entry its \<open>address\<close> (unset, \<open>None\<close>, until it is registered). A dictionary is
  an association list in insertion order; \<open>registry[session_id]\<close> is \<open>map_of\<close>.
\<close>

record session_entry =
  address :: "string option"

record SessionRegistryManager =
  shutting_down :: bool
  registry :: "(string \<times> session_entry) list"

text \<open>
  The state a handler or the shutdown branch runs on: the module's global
  \<open>DEFECTIVE\<close>, the registry manager both servicers share, the context of the call in
  progress, and the events so far.
\<close>

record state =
  DEFECTIVE :: bool
  session_registry_manager :: SessionRegistryManager
  servicer_context :: ServicerContext
  trace :: "event list"

subsection \<open>Statements: fall through, return, raise\<close>

text \<open>
  A statement of a handler body ends in one of three ways: control goes on to the next
  statement, the function returns (\<open>Return None\<close> for a bare \<open>return\<close>), or an
  exception is raised. \<open>then_stmt a b\<close> is \<open>a\<close> followed by \<open>b\<close>: \<open>b\<close> runs only
  when \<open>a\<close> falls through.
\<close>

datatype 'r flow = Next | Return "'r option" | Raise exn

type_synonym 'r stmt = "state \<Rightarrow> 'r flow \<times> state"

definition then_stmt :: "'r stmt \<Rightarrow> 'r stmt \<Rightarrow> 'r stmt" where
  "then_stmt a b s = (case a s of (Next, s') \<Rightarrow> b s' | (Return v, s') \<Rightarrow> (Return v, s') | (Raise e, s') \<Rightarrow> (Raise e, s'))"

definition return_stmt :: "'r option \<Rightarrow> 'r stmt" where
  "return_stmt v s = (Return v, s)"

text \<open>
  A call of a collaborator inside a statement: when the call raises, the statement
  raises; otherwise the rest of the statement runs on the value.
\<close>

definition call :: "exn + 'a \<Rightarrow> ('a \<Rightarrow> 'r stmt) \<Rightarrow> 'r stmt" where
  "call outcome k s = (case outcome of Inl e \<Rightarrow> (Raise e, s) | Inr v \<Rightarrow> k v s)"

definition logger :: "log_level \<Rightarrow> log_msg \<Rightarrow> state \<Rightarrow> state" where
  "logger lvl msg s = s\<lparr>trace := trace s @ [Log lvl msg]\<rparr>"

definition LOGGER_info :: "string \<Rightarrow> 'r stmt" where
  "LOGGER_info msg s = (Next, logger INFO (Text msg) s)"

definition set_details :: "string \<Rightarrow> state \<Rightarrow> state" where
  "set_details d s = s\<lparr>servicer_context := (servicer_context s)\<lparr>details := Some d\<rparr>\<rparr>"

definition set_code :: "status_code \<Rightarrow> state \<Rightarrow> state" where
  "set_code c s = s\<lparr>servicer_context := (servicer_context s)\<lparr>code := Some c\<rparr>\<rparr>"

subsection \<open>The handler boundary\<close>

text \<open>
  Every handler is a \<open>try\<close> with two \<open>except\<close> clauses that differ only in the tuple of
  classes of the first one. The first clause logs the exception, sets the details to
  \<open>str(e)\<close> and the code to \<open>INVALID_ARGUMENT\<close>; the second, \<open>except Exception\<close>, logs
  the exception with its traceback, sets the details to the text
  \<open>An exception with message "..." was raised!\<close> and the code to \<open>UNKNOWN\<close>. After
  either clause the function ends and so returns \<open>None\<close>. An exception that neither
  clause matches, one that is not an instance of \<open>Exception\<close>, leaves the handler.
\<close>

definition except_classified :: "exn \<Rightarrow> state \<Rightarrow> state" where
  "except_classified e s =
     set_code INVALID_ARGUMENT (set_details (str_exn e) (logger ERROR (Exc e) s))"

definition except_generic :: "exn \<Rightarrow> state \<Rightarrow> state" where
  "except_generic e s =
     set_code UNKNOWN
       (set_details (''An exception with message '' @ [CHR 0x22] @ str_exn e @ [CHR 0x22] @ '' was raised!'')
         (logger ERROR (Exc_with_traceback e) s))"

definition try_except :: "exn_class list \<Rightarrow> 'r stmt \<Rightarrow> 'r stmt" where
  "try_except classes body s =
     (case body s of
        (Next, s') \<Rightarrow> (Return None, s')
      | (Return v, s') \<Rightarrow> (Return v, s')
      | (Raise e, s') \<Rightarrow>
          (if class_of e \<in> set classes then (Return None, except_classified e s')
           else if is_Exception (class_of e) then (Return None, except_generic e s')
           else (Raise e, s')))"

subsection \<open>The MachineManager servicer\<close>

definition ServerShuttingDown :: "state \<Rightarrow> bool \<times> state" where
  "ServerShuttingDown s =
     (if shutting_down (session_registry_manager s)
      then (True, set_code UNAVAILABLE
                    (set_details ''Server is shutting down, not accepting new requests'' s))
      else (False, s))"

text \<open>The first statement of the three handlers: \<open>if self.ServerShuttingDown(context): return\<close>.\<close>

definition return_if_shutting_down :: "'r stmt" where
  "return_if_shutting_down s =
     (case ServerShuttingDown s of (True, s') \<Rightarrow> (Return None, s') | (False, s') \<Rightarrow> (Next, s'))"

text \<open>
  Each handler comes twice: \<open>NewSession_in env\<close> is the handler of the source with the
  collaborators \<open>env\<close>, and \<open>NewSession\<close> is that handler with the modelled
  collaborators.
\<close>

definition NewSession_body :: "collaborators \<Rightarrow> ('m, 'z) NewSessionRequest_scheme \<Rightarrow> Hash stmt" where
  "NewSession_body env request =
     then_stmt return_if_shutting_down
    (then_stmt (LOGGER_info (''New session requested with session_id: '' @ session_id request))
               (call (pb2_Hash env [0x00]) (\<lambda>h. return_stmt (Some h))))"

definition NewSession_in :: "collaborators \<Rightarrow> ('m, 'z) NewSessionRequest_scheme \<Rightarrow> Hash stmt" where
  "NewSession_in env request =
     try_except [SessionIdException, AddressException] (NewSession_body env request)"

definition NewSession :: "('m, 'z) NewSessionRequest_scheme \<Rightarrow> Hash stmt" where
  "NewSession request = NewSession_in modelled_collaborators request"

definition SessionStep_body :: "collaborators \<Rightarrow> 'z SessionStepRequest_scheme \<Rightarrow> SessionStepResponse stmt" where
  "SessionStep_body env request =
     then_stmt return_if_shutting_down
               (call (pb2_SessionStepResponse env) (\<lambda>r. return_stmt (Some r)))"

definition SessionStep_in :: "collaborators \<Rightarrow> 'z SessionStepRequest_scheme \<Rightarrow> SessionStepResponse stmt" where
  "SessionStep_in env request =
     try_except [SessionIdException, AddressException, CycleException, RollbackException]
       (SessionStep_body env request)"

definition SessionStep :: "'z SessionStepRequest_scheme \<Rightarrow> SessionStepResponse stmt" where
  "SessionStep request = SessionStep_in modelled_collaborators request"


text \<open>
  \<open>"{}".format(final_cycles)\<close>: the decimal text of a list of integers, as Python prints
  a list.
\<close>

function str_nat :: "nat \<Rightarrow> string" where
  "str_nat n = (if n < 10 then [''0123456789'' ! n] else str_nat (n div 10) @ [''0123456789'' ! (n mod 10)])"
  by pat_completeness auto
termination
  by (relation "measure id") auto

declare str_nat.simps [simp del]

definition str_int :: "int \<Rightarrow> string" where
  "str_int i = (if i < 0 then ''-'' @ str_nat (nat (- i)) else str_nat (nat i))"

fun join :: "string \<Rightarrow> string list \<Rightarrow> string" where
  "join sep [] = []"
| "join sep [x] = x"
| "join sep (x # y # ys) = x @ sep @ join sep (y # ys)"

definition str_cycles :: "int list \<Rightarrow> string" where
  "str_cycles cycles = ''['' @ join '', '' (map str_int cycles) @ '']''"

text \<open>
  Modelled from the spec: \<open>utils.validate_cycles\<close> is not part of the sources. The spec
  calls the requested target progress values well-formed when they are monotonically
  non-decreasing and non-negative, and has the validation fail with
  \<open>InvalidCycleRange\<close> otherwise; the failure is the \<open>utils.CycleException\<close> the
  handlers catch. The message text is not given by the spec.
\<close>

definition well_formed_cycles :: "int list \<Rightarrow> bool" where
  "well_formed_cycles cycles = (list_all (\<lambda>c. 0 \<le> c) cycles \<and> sorted cycles)"

definition validate_cycles :: "int list \<Rightarrow> 'r stmt" where
  "validate_cycles cycles s =
     (if well_formed_cycles cycles then (Next, s)
      else (Raise (Exn CycleException ''InvalidCycleRange''), s))"

text \<open>
  \<open>SessionRun\<close>. Lines 88 to 93 build the two lists, constructor call by constructor
  call, replace the hashes when \<open>DEFECTIVE\<close> holds, pack the result and return it. The
  statements after \<open>return run_result\<close> (the log record and the validation of the
  cycles, lines 95 to 100) are part of the body as the source has them; \<open>then_stmt\<close>
  never reaches them.
\<close>

definition return_run_result :: "collaborators \<Rightarrow> RunResponse list \<Rightarrow> Hash list \<Rightarrow> SessionRunResult stmt" where
  "return_run_result env summaries_list hashes_list =
     call (utils_make_session_run_result env summaries_list hashes_list)
          (\<lambda>run_result. return_stmt (Some run_result))"

definition SessionRun_body :: "collaborators \<Rightarrow> 'z SessionRunRequest_scheme \<Rightarrow> SessionRunResult stmt" where
  "SessionRun_body env request =
     then_stmt return_if_shutting_down
    (then_stmt
       (call (pb2_RunResponse env) (\<lambda>r1. call (pb2_RunResponse env) (\<lambda>r2.
        call (pb2_Hash env [0x00]) (\<lambda>h1. call (pb2_Hash env [0x00]) (\<lambda>h2.
        (\<lambda>s. if DEFECTIVE s
              then call (pb2_Hash env [0x00]) (\<lambda>h3. call (pb2_Hash env [0x01]) (\<lambda>h4.
                     return_run_result env [r1, r2] [h3, h4])) s
              else return_run_result env [r1, r2] [h1, h2] s))))))
    (then_stmt (LOGGER_info (''New session run requested for session_id '' @ session_id request
                  @ '' with final cycles '' @ str_cycles (final_cycles request)))
               (validate_cycles (final_cycles request))))"

definition SessionRun_in :: "collaborators \<Rightarrow> 'z SessionRunRequest_scheme \<Rightarrow> SessionRunResult stmt" where
  "SessionRun_in env request =
     try_except [SessionIdException, AddressException, CycleException, RollbackException]
       (SessionRun_body env request)"

definition SessionRun :: "'z SessionRunRequest_scheme \<Rightarrow> SessionRunResult stmt" where
  "SessionRun request = SessionRun_in modelled_collaborators request"

subsection \<open>The MachineDiscovery servicer\<close>

text \<open>
  \<open>CommunicateAddress\<close> calls \<open>register_address_for_session\<close> of the registry manager,
  which is not part of the sources: the handler takes it as the parameter \<open>register\<close>,
  a function of the session id, the address and the manager that either raises or
  returns the manager as the call leaves it.
\<close>

type_synonym register_fn = "string \<Rightarrow> string \<Rightarrow> SessionRegistryManager \<Rightarrow> exn + SessionRegistryManager"

definition call_register :: "register_fn \<Rightarrow> string \<Rightarrow> string \<Rightarrow> 'r stmt" where
  "call_register register sid addr s =
     (case register sid addr (session_registry_manager s) of
        Inl e \<Rightarrow> (Raise e, s)
      | Inr m \<Rightarrow> (Next, s\<lparr>session_registry_manager := m\<rparr>))"

definition CommunicateAddress_body :: "collaborators \<Rightarrow> register_fn \<Rightarrow> 'z AddressRequest_scheme \<Rightarrow> Void stmt" where
  "CommunicateAddress_body env register request =
     then_stmt (LOGGER_info (''Received a CommunicateAddress request for session_id '' @ session_id request
                  @ '' and address '' @ AddressRequest.address request))
    (then_stmt (call_register register (session_id request) (AddressRequest.address request))
               (call (pb2_Void env) (\<lambda>v. return_stmt (Some v))))"

definition CommunicateAddress_in :: "collaborators \<Rightarrow> register_fn \<Rightarrow> 'z AddressRequest_scheme \<Rightarrow> Void stmt" where
  "CommunicateAddress_in env register request =
     try_except [SessionIdException] (CommunicateAddress_body env register request)"

definition CommunicateAddress :: "register_fn \<Rightarrow> 'z AddressRequest_scheme \<Rightarrow> Void stmt" where
  "CommunicateAddress register request = CommunicateAddress_in modelled_collaborators register request"

text \<open>
  Modelled from the spec: \<open>register_address_for_session\<close> as the spec describes
  \<open>register_address(session_id, address)\<close>: it fails with \<open>UnknownSession\<close> when the
  session id is absent from the entries, fails with \<open>AddressAlreadySet\<close> when the entry
  already has an address, and sets the address otherwise. \<open>UnknownSession\<close> is the
  \<open>SessionIdException\<close> and \<open>AddressAlreadySet\<close> the \<open>AddressException\<close> the server
  imports from session\_registry. The message texts are not given by the spec.
\<close>

definition register_address_for_session :: register_fn where
  "register_address_for_session sid addr m =
     (case map_of (registry m) sid of
        None \<Rightarrow> Inl (Exn SessionIdException ''UnknownSession'')
      | Some entry \<Rightarrow>
          (case address entry of
             Some a \<Rightarrow> Inl (Exn AddressException ''AddressAlreadySet'')
           | None \<Rightarrow> Inr (m\<lparr>registry :=
                 map (\<lambda>kv. if fst kv = sid then (sid, entry\<lparr>address := Some addr\<rparr>) else kv) (registry m)\<rparr>)))"


subsection \<open>The command line and the start of serve\<close>

definition LISTENING_ADDRESS :: string where
  "LISTENING_ADDRESS = ''localhost''"

definition LISTENING_PORT :: string where
  "LISTENING_PORT = ''50051''"

text \<open>The module's global \<open>DEFECTIVE\<close> as the module body leaves it (line 44).\<close>

definition module_DEFECTIVE :: bool where
  "module_DEFECTIVE = False"

fun store_option :: "Namespace \<Rightarrow> cli_option \<Rightarrow> Namespace" where
  "store_option ns (Opt_address a) = ns\<lparr>Namespace.address := a\<rparr>"
| "store_option ns (Opt_port p) = ns\<lparr>port := p\<rparr>"
| "store_option ns Opt_defective = ns\<lparr>defective := True\<rparr>"

definition parse_args :: "cli_option list \<Rightarrow> Namespace" where
  "parse_args opts =
     foldl store_option
       \<lparr>Namespace.address = LISTENING_ADDRESS, port = LISTENING_PORT, defective = False\<rparr> opts"

text \<open>
  \<open>serve\<close> up to \<open>server.start()\<close>: it sets the global \<open>DEFECTIVE\<close> when
  \<open>args.defective\<close> holds and builds the registry manager. Modelled from the spec: the
  constructor of \<open>SessionRegistryManager\<close> is not part of the sources; the spec has the
  flag false at construction, and no entry exists before a session is created.
\<close>

definition serve_start :: "Namespace \<Rightarrow> state" where
  "serve_start args =
     \<lparr>DEFECTIVE = (if defective args then True else module_DEFECTIVE),
      session_registry_manager = \<lparr>shutting_down = False, registry = []\<rparr>,
      servicer_context = fresh_context,
      trace = [Log INFO (Text (''Server started, listening on address '' @ Namespace.address args
                 @ '' and port '' @ port args))]\<rparr>"

subsection \<open>The shutdown branch of serve\<close>

text \<open>
  The stop primitive \<open>utils.shutdown_cartesi_machine_server\<close> is not part of the
  sources: the drain takes it as the parameter \<open>stop\<close>, which for a session id and an
  address either returns (\<open>None\<close>) or raises (\<open>Some e\<close>).
\<close>

type_synonym stop_fn = "string \<Rightarrow> string \<Rightarrow> exn option"

text \<open>Python's truth value of \<open>registry[session_id].address\<close>: \<open>None\<close> and the empty string are false.\<close>

fun truthy :: "string option \<Rightarrow> bool" where
  "truthy None = False"
| "truthy (Some a) = (a \<noteq> [])"

text \<open>
  The loop \<open>for session_id in session_registry_manager.registry.keys()\<close> over the keys
  \<open>ks\<close>, with the outcome of the loop (\<open>None\<close> when it ran to its end, \<open>Some e\<close> when
  \<open>e\<close> left it) and the events it produced. No statement of the loop is inside a
  \<open>try\<close>: an exception of the stop primitive leaves the loop, and so does the
  \<open>KeyError\<close> of \<open>registry[session_id]\<close> for a key without an entry (its message is
  the key in quotes). The stop primitive is called with the address only where the
  truth test has found one.
\<close>

fun drain :: "stop_fn \<Rightarrow> (string \<times> session_entry) list \<Rightarrow> string list \<Rightarrow> exn option \<times> event list" where
  "drain stop reg [] = (None, [])"
| "drain stop reg (sid # ks) =
     (case map_of reg sid of
        None \<Rightarrow>
          (Some (Exn KeyError ([CHR 0x27] @ sid @ [CHR 0x27])),
           [Log DEBUG (Text (''Acquiring lock for session '' @ sid))])
      | Some entry \<Rightarrow>
          (let evs = [Log DEBUG (Text (''Acquiring lock for session '' @ sid)),
                      Log DEBUG (Text (''Lock for session '' @ sid @ '' acquired''))]
           in if truthy (address entry)
              then (case stop sid (the (address entry)) of
                      Some e \<Rightarrow> (Some e, evs @ [Shutdown_machine sid (the (address entry))])
                    | None \<Rightarrow>
                        (case drain stop reg ks of
                           (r, evs') \<Rightarrow> (r, evs @ Shutdown_machine sid (the (address entry)) # evs')))
              else (case drain stop reg ks of (r, evs') \<Rightarrow> (r, evs @ evs'))))"

text \<open>
  The \<open>except KeyboardInterrupt\<close> branch of \<open>serve\<close>: set the flag, drain the
  registry in the order of its keys, stop the server. The result is \<open>Some e\<close> when the
  exception \<open>e\<close> leaves \<open>serve\<close>.
\<close>

definition serve_shutdown :: "stop_fn \<Rightarrow> state \<Rightarrow> exn option \<times> state" where
  "serve_shutdown stop s =
     (let s1 = logger DEBUG (Text ''Acquiring session registry global lock'')
                 (logger INFO (Text (CHR 0x0A # ''Issued to shut down'')) s);
          s2 = logger DEBUG (Text ''Session registry global lock acquired'') s1;
          s3 = s2\<lparr>session_registry_manager := (session_registry_manager s2)\<lparr>shutting_down := True\<rparr>\<rparr>;
          reg = registry (session_registry_manager s3)
      in case drain stop reg (map fst reg) of
           (Some e, evs) \<Rightarrow> (Some e, s3\<lparr>trace := trace s3 @ evs\<rparr>)
         | (None, evs) \<Rightarrow>
             (None, s3\<lparr>trace := trace s3 @ evs
                          @ [Server_stop, Log INFO (Text ''Waiting for server to stop''),
                             Log INFO (Text ''Server stopped'')]\<rparr>))"

text \<open>The calls of the stop primitive among the events, in order.\<close>

fun stop_calls :: "event list \<Rightarrow> (string \<times> string) list" where
  "stop_calls [] = []"
| "stop_calls (Shutdown_machine sid a # evs) = (sid, a) # stop_calls evs"
| "stop_calls (_ # evs) = stop_calls evs"

text \<open>
  An entry's address is set, for the drain, when the entry exists and the test
  \<open>if registry[session_id].address\<close> of the source succeeds.
\<close>

definition address_set :: "(string \<times> session_entry) list \<Rightarrow> string \<Rightarrow> bool" where
  "address_set reg sid = (case map_of reg sid of None \<Rightarrow> False | Some entry \<Rightarrow> truthy (address entry))"


subsection \<open>Counting the calls of the stop primitive\<close>

text \<open>How often the stop primitive was called for the session \<open>sid\<close> among the events.\<close>

definition times_stopped :: "event list \<Rightarrow> string \<Rightarrow> nat" where
  "times_stopped evs sid = length (filter (\<lambda>c. fst c = sid) (stop_calls evs))"

text \<open>The call the drain makes for the key \<open>sid\<close> when it reaches it, if any.\<close>

definition expected_call :: "(string \<times> session_entry) list \<Rightarrow> string \<Rightarrow> (string \<times> string) option" where
  "expected_call reg sid =
     (case map_of reg sid of
        None \<Rightarrow> None
      | Some entry \<Rightarrow> if truthy (address entry) then Some (sid, the (address entry)) else None)"

subsection \<open>Example states\<close>

definition example_registry :: "(string \<times> session_entry) list" where
  "example_registry =
     [(''S1'', \<lparr>address = Some ''10.0.0.1:9000''\<rparr>),
      (''S2'', \<lparr>address = None\<rparr>),
      (''S3'', \<lparr>address = Some ''10.0.0.3:9000''\<rparr>)]"

definition running_state :: state where
  "running_state =
     \<lparr>DEFECTIVE = False,
      session_registry_manager = \<lparr>shutting_down = False, registry = example_registry\<rparr>,
      servicer_context = fresh_context,
      trace = []\<rparr>"

definition stopping_state :: state where
  "stopping_state =
     \<lparr>DEFECTIVE = False,
      session_registry_manager = \<lparr>shutting_down = True, registry = example_registry\<rparr>,
      servicer_context = fresh_context,
      trace = []\<rparr>"

text \<open>A stop primitive that cannot reach the machine of session \<open>S1\<close>.\<close>

definition failing_stop :: stop_fn where
  "failing_stop sid a = (if sid = ''S1'' then Some (Exn OtherException ''failed to connect'') else None)"


subsection \<open>A caught exception, as the caller of a handler sees it\<close>


section \<open>Properties\<close>

subsection \<open>Unfolding the handlers\<close>

lemma NewSession_shutting_down:
  "shutting_down (session_registry_manager s) \<Longrightarrow>
   NewSession rq s =
     (Return None, set_code UNAVAILABLE (set_details ''Server is shutting down, not accepting new requests'' s))"
  by (simp add: NewSession_def NewSession_in_def NewSession_body_def try_except_def then_stmt_def
        return_if_shutting_down_def ServerShuttingDown_def)

lemma SessionRun_shutting_down:
  "shutting_down (session_registry_manager s) \<Longrightarrow>
   SessionRun rq s =
     (Return None, set_code UNAVAILABLE (set_details ''Server is shutting down, not accepting new requests'' s))"
  by (simp add: SessionRun_def SessionRun_in_def SessionRun_body_def try_except_def then_stmt_def
        return_if_shutting_down_def ServerShuttingDown_def)

lemma SessionStep_shutting_down:
  "shutting_down (session_registry_manager s) \<Longrightarrow>
   SessionStep rq s =
     (Return None, set_code UNAVAILABLE (set_details ''Server is shutting down, not accepting new requests'' s))"
  by (simp add: SessionStep_def SessionStep_in_def SessionStep_body_def try_except_def then_stmt_def
        return_if_shutting_down_def ServerShuttingDown_def)

lemma unavailable_state:
  "set_code UNAVAILABLE (set_details d s) =
     s\<lparr>servicer_context := \<lparr>details = Some d, code = Some UNAVAILABLE\<rparr>\<rparr>"
  by (simp add: set_code_def set_details_def)

lemma NewSession_running:
  "\<not> shutting_down (session_registry_manager s) \<Longrightarrow>
   NewSession rq s =
     (Return (Some \<lparr>content = [0x00]\<rparr>),
      logger INFO (Text (''New session requested with session_id: '' @ session_id rq)) s)"
  by (simp add: NewSession_def NewSession_in_def NewSession_body_def try_except_def then_stmt_def
        return_if_shutting_down_def ServerShuttingDown_def LOGGER_info_def return_stmt_def
        call_def modelled_collaborators_def)

lemma SessionRun_running:
  "\<not> shutting_down (session_registry_manager s) \<Longrightarrow>
   SessionRun rq s =
     (Return (Some \<lparr>summaries = [RunResponse, RunResponse],
                     hashes = [\<lparr>content = [0x00]\<rparr>,
                               \<lparr>content = [if DEFECTIVE s then 0x01 else 0x00]\<rparr>]\<rparr>), s)"
  by (simp add: SessionRun_def SessionRun_in_def SessionRun_body_def return_run_result_def
        try_except_def then_stmt_def return_if_shutting_down_def ServerShuttingDown_def
        return_stmt_def call_def modelled_collaborators_def make_session_run_result_def)

lemma SessionStep_running:
  "\<not> shutting_down (session_registry_manager s) \<Longrightarrow>
   SessionStep rq s = (Return (Some SessionStepResponse), s)"
  by (simp add: SessionStep_def SessionStep_in_def SessionStep_body_def try_except_def then_stmt_def
        return_if_shutting_down_def ServerShuttingDown_def return_stmt_def
        call_def modelled_collaborators_def)

subsection \<open>Requests after the shutdown flag is set\<close>

text \<open>
  C1. When \<open>shutting_down\<close> is true, each of \<open>NewSession\<close>, \<open>SessionRun\<close> and
  \<open>SessionStep\<close> returns \<open>None\<close> at once, with the code \<open>UNAVAILABLE\<close> and the details
  \<open>Server is shutting down, not accepting new requests\<close> set in the context. The state
  the handler leaves differs from the one it started on in the context only: the
  registry manager is as it was, and nothing is logged.
\<close>

theorem shutting_down_fails_fast:
  assumes "shutting_down (session_registry_manager s)"
  shows "NewSession rq1 s =
           (Return None, s\<lparr>servicer_context :=
              \<lparr>details = Some ''Server is shutting down, not accepting new requests'',
               code = Some UNAVAILABLE\<rparr>\<rparr>)
       \<and> SessionRun rq2 s =
           (Return None, s\<lparr>servicer_context :=
              \<lparr>details = Some ''Server is shutting down, not accepting new requests'',
               code = Some UNAVAILABLE\<rparr>\<rparr>)
       \<and> SessionStep rq3 s =
           (Return None, s\<lparr>servicer_context :=
              \<lparr>details = Some ''Server is shutting down, not accepting new requests'',
               code = Some UNAVAILABLE\<rparr>\<rparr>)"
  using assms
  by (simp add: NewSession_shutting_down SessionRun_shutting_down SessionStep_shutting_down
        unavailable_state)

theorem shutting_down_fails_fast_witness:
  "shutting_down (session_registry_manager stopping_state)
   \<and> NewSession \<lparr>session_id = ''S1'', machine = ()\<rparr> stopping_state =
       (Return None, stopping_state\<lparr>servicer_context :=
          \<lparr>details = Some ''Server is shutting down, not accepting new requests'',
           code = Some UNAVAILABLE\<rparr>\<rparr>)
   \<and> SessionRun \<lparr>session_id = ''S1'', final_cycles = [100, 200]\<rparr> stopping_state =
       (Return None, stopping_state\<lparr>servicer_context :=
          \<lparr>details = Some ''Server is shutting down, not accepting new requests'',
           code = Some UNAVAILABLE\<rparr>\<rparr>)
   \<and> SessionStep \<lparr>session_id = ''S1'', initial_cycle = 100\<rparr> stopping_state =
       (Return None, stopping_state\<lparr>servicer_context :=
          \<lparr>details = Some ''Server is shutting down, not accepting new requests'',
           code = Some UNAVAILABLE\<rparr>\<rparr>)"
proof -
  have sd: "shutting_down (session_registry_manager stopping_state)"
    by (simp add: stopping_state_def)
  show ?thesis
    using sd shutting_down_fails_fast [OF sd,
        of "\<lparr>session_id = ''S1'', machine = ()\<rparr>"
           "\<lparr>session_id = ''S1'', final_cycles = [100, 200]\<rparr>"
           "\<lparr>session_id = ''S1'', initial_cycle = 100\<rparr>"]
    by simp
qed


subsection \<open>The result of SessionRun\<close>

text \<open>
  C2, as the code has it. When the server is not shutting down, \<open>SessionRun\<close> returns a
  result with exactly two summaries and exactly two fingerprints, whatever the number of
  requested final cycles is; the state is left as it was. The result has one pair per
  requested checkpoint only when two checkpoints were requested.
\<close>

theorem SessionRun_returns_two_pairs:
  assumes "\<not> shutting_down (session_registry_manager s)"
  shows "\<exists>r. SessionRun rq s = (Return (Some r), s)
             \<and> length (summaries r) = 2 \<and> length (hashes r) = 2"
  using assms by (simp add: SessionRun_running)

theorem SessionRun_returns_two_pairs_witness:
  "\<not> shutting_down (session_registry_manager running_state)
   \<and> (\<exists>r. SessionRun \<lparr>session_id = ''S1'', final_cycles = [100, 200, 300]\<rparr> running_state
              = (Return (Some r), running_state)
          \<and> length (summaries r) = 2 \<and> length (hashes r) = 2)"
proof -
  have run: "\<not> shutting_down (session_registry_manager running_state)"
    by (simp add: running_state_def)
  show ?thesis
    using run SessionRun_returns_two_pairs [OF run,
        of "\<lparr>session_id = ''S1'', final_cycles = [100, 200, 300]\<rparr>"]
    by simp
qed

text \<open>
  The claim as stated, one pair per requested checkpoint, fails for a request with three
  final cycles: the result has two summaries and two fingerprints.
\<close>

theorem SessionRun_one_pair_per_checkpoint_counterexample:
  "\<not> shutting_down (session_registry_manager running_state)
   \<and> length (final_cycles \<lparr>session_id = ''S1'', final_cycles = [100, 200, 300]\<rparr>) = 3
   \<and> SessionRun \<lparr>session_id = ''S1'', final_cycles = [100, 200, 300]\<rparr> running_state =
       (Return (Some \<lparr>summaries = [RunResponse, RunResponse],
                       hashes = [\<lparr>content = [0x00]\<rparr>, \<lparr>content = [0x00]\<rparr>]\<rparr>),
        running_state)
   \<and> length (summaries \<lparr>summaries = [RunResponse, RunResponse],
                         hashes = [\<lparr>content = [0x00]\<rparr>, \<lparr>content = [0x00]\<rparr>]\<rparr>) \<noteq> 3"
  by (simp add: SessionRun_running running_state_def)

text \<open>
  C3. A request whose final cycles decrease is not well-formed, and the validation the
  body holds after its \<open>return\<close> would raise the \<open>CycleException\<close> on it; the handler
  returns the fixed result all the same, sets no code and logs nothing.
\<close>

theorem SessionRun_accepts_decreasing_cycles:
  "\<not> well_formed_cycles [200, 100]
   \<and> fst (validate_cycles [200, 100] running_state
            :: SessionRunResult flow \<times> state) = Raise (Exn CycleException ''InvalidCycleRange'')
   \<and> SessionRun \<lparr>session_id = ''S1'', final_cycles = [200, 100]\<rparr> running_state =
       (Return (Some \<lparr>summaries = [RunResponse, RunResponse],
                       hashes = [\<lparr>content = [0x00]\<rparr>, \<lparr>content = [0x00]\<rparr>]\<rparr>),
        running_state)
   \<and> code (servicer_context (snd (SessionRun \<lparr>session_id = ''S1'', final_cycles = [200, 100]\<rparr>
                                      running_state))) = None"
  by (simp add: SessionRun_running running_state_def well_formed_cycles_def validate_cycles_def
        fresh_context_def)

subsection \<open>Two NewSession requests with one session id\<close>

text \<open>
  C4, as the code has it. While the server is not shutting down, the second of two
  \<open>NewSession\<close> requests with the same session id succeeds as the first does: both
  return the fixed initial hash, the second sets neither code nor details in its fresh
  context, and neither call changes the registry manager.
\<close>

theorem NewSession_twice_both_succeed:
  assumes "\<not> shutting_down (session_registry_manager s)"
    and "session_id rq2 = session_id rq1"
  shows "\<exists>s1 s2. NewSession rq1 s = (Return (Some \<lparr>content = [0x00]\<rparr>), s1)
           \<and> NewSession rq2 (s1\<lparr>servicer_context := fresh_context\<rparr>)
               = (Return (Some \<lparr>content = [0x00]\<rparr>), s2)
           \<and> servicer_context s2 = fresh_context
           \<and> session_registry_manager s1 = session_registry_manager s
           \<and> session_registry_manager s2 = session_registry_manager s"
  using assms by (simp add: NewSession_running logger_def)

theorem NewSession_twice_both_succeed_witness:
  "\<not> shutting_down (session_registry_manager running_state)
   \<and> session_id \<lparr>session_id = ''S1'', machine = ()\<rparr> = session_id \<lparr>session_id = ''S1'', machine = ()\<rparr>
   \<and> (\<exists>s1 s2. NewSession \<lparr>session_id = ''S1'', machine = ()\<rparr> running_state
                  = (Return (Some \<lparr>content = [0x00]\<rparr>), s1)
           \<and> NewSession \<lparr>session_id = ''S1'', machine = ()\<rparr> (s1\<lparr>servicer_context := fresh_context\<rparr>)
               = (Return (Some \<lparr>content = [0x00]\<rparr>), s2)
           \<and> servicer_context s2 = fresh_context
           \<and> session_registry_manager s1 = session_registry_manager running_state
           \<and> session_registry_manager s2 = session_registry_manager running_state)"
proof -
  have run: "\<not> shutting_down (session_registry_manager running_state)"
    by (simp add: running_state_def)
  show ?thesis
    using run NewSession_twice_both_succeed [OF run,
        of "\<lparr>session_id = ''S1'', machine = ()\<rparr>" "\<lparr>session_id = ''S1'', machine = ()\<rparr>"]
    by simp
qed

text \<open>
  The claim as stated fails: the second request for the session id \<open>S1\<close> returns the
  hash, and its context holds no error code.
\<close>

theorem NewSession_duplicate_counterexample:
  "fst (NewSession \<lparr>session_id = ''S1'', machine = ()\<rparr>
         ((snd (NewSession \<lparr>session_id = ''S1'', machine = ()\<rparr> (serve_start (parse_args []))))
            \<lparr>servicer_context := fresh_context\<rparr>))
     = Return (Some \<lparr>content = [0x00]\<rparr>)
   \<and> code (servicer_context
        (snd (NewSession \<lparr>session_id = ''S1'', machine = ()\<rparr>
               ((snd (NewSession \<lparr>session_id = ''S1'', machine = ()\<rparr> (serve_start (parse_args []))))
                  \<lparr>servicer_context := fresh_context\<rparr>)))) = None"
  by (simp add: NewSession_running serve_start_def logger_def fresh_context_def)

subsection \<open>The failure-to-code mapping\<close>

lemma try_except_raise:
  "body s = (Raise e, s1) \<Longrightarrow> is_Exception (class_of e) \<Longrightarrow>
   try_except classes body s =
     (Return None, if class_of e \<in> set classes then except_classified e s1 else except_generic e s1)"
  by (simp add: try_except_def)



lemma except_classified_observed:
  "code (servicer_context (except_classified e s)) = Some INVALID_ARGUMENT"
  "details (servicer_context (except_classified e s)) = Some (str_exn e)"
  "trace (except_classified e s) = trace s @ [Log ERROR (Exc e)]"
  "session_registry_manager (except_classified e s) = session_registry_manager s"
  by (simp_all add: except_classified_def set_code_def set_details_def logger_def)

lemma except_generic_observed:
  "code (servicer_context (except_generic e s)) = Some UNKNOWN"
  "details (servicer_context (except_generic e s)) =
     Some (''An exception with message '' @ [CHR 0x22] @ str_exn e @ [CHR 0x22] @ '' was raised!'')"
  "trace (except_generic e s) = trace s @ [Log ERROR (Exc_with_traceback e)]"
  "session_registry_manager (except_generic e s) = session_registry_manager s"
  by (simp_all add: except_generic_def set_code_def set_details_def logger_def)

lemma CommunicateAddress_body_raise:
  "register (session_id rq) (AddressRequest.address rq) (session_registry_manager s) = Inl e \<Longrightarrow>
   CommunicateAddress_body env register rq s =
     (Raise e, logger INFO (Text (''Received a CommunicateAddress request for session_id '' @ session_id rq
                 @ '' and address '' @ AddressRequest.address rq)) s)"
  by (simp add: CommunicateAddress_body_def then_stmt_def LOGGER_info_def call_register_def logger_def)

lemma CommunicateAddress_raise:
  "register (session_id rq) (AddressRequest.address rq) (session_registry_manager s) = Inl e \<Longrightarrow>
   is_Exception (class_of e) \<Longrightarrow>
   CommunicateAddress register rq s =
     (Return None,
      let s1 = logger INFO (Text (''Received a CommunicateAddress request for session_id '' @ session_id rq
                 @ '' and address '' @ AddressRequest.address rq)) s
      in if class_of e = SessionIdException then except_classified e s1 else except_generic e s1)"
  by (simp add: CommunicateAddress_def CommunicateAddress_in_def CommunicateAddress_body_raise
        try_except_def Let_def)

text \<open>
  C7. The session \<open>S1\<close> of the example registry has its address; a second
  \<open>CommunicateAddress\<close> for it makes the registration raise the \<open>AddressException\<close>
  (\<open>AddressAlreadySet\<close>). The first \<open>except\<close> clause of \<open>CommunicateAddress\<close> names
  \<open>SessionIdException\<close> only, so the generic clause takes it: the code is \<open>UNKNOWN\<close>.
  The boundary of the three \<open>MachineManager\<close> handlers names \<open>AddressException\<close> and
  gives \<open>INVALID_ARGUMENT\<close> for the same exception.
\<close>

theorem CommunicateAddress_address_already_set_is_unknown:
  "register_address_for_session ''S1'' ''10.0.0.1:9001'' (session_registry_manager running_state)
     = Inl (Exn AddressException ''AddressAlreadySet'')
   \<and> fst (CommunicateAddress register_address_for_session
            \<lparr>session_id = ''S1'', AddressRequest.address = ''10.0.0.1:9001''\<rparr> running_state) = Return None
   \<and> code (servicer_context (snd (CommunicateAddress register_address_for_session
            \<lparr>session_id = ''S1'', AddressRequest.address = ''10.0.0.1:9001''\<rparr> running_state))) = Some UNKNOWN
   \<and> code (servicer_context (snd (try_except [SessionIdException, AddressException]
            (\<lambda>s. (Raise (Exn AddressException ''AddressAlreadySet''), s) :: Hash flow \<times> state)
            running_state))) = Some INVALID_ARGUMENT
   \<and> code (servicer_context (snd (try_except
            [SessionIdException, AddressException, CycleException, RollbackException]
            (\<lambda>s. (Raise (Exn AddressException ''AddressAlreadySet''), s) :: SessionRunResult flow \<times> state)
            running_state))) = Some INVALID_ARGUMENT"
proof -
  have r: "register_address_for_session ''S1'' ''10.0.0.1:9001'' (session_registry_manager running_state)
             = Inl (Exn AddressException ''AddressAlreadySet'')"
    by (simp add: register_address_for_session_def running_state_def example_registry_def)
  have c: "CommunicateAddress register_address_for_session
             \<lparr>session_id = ''S1'', AddressRequest.address = ''10.0.0.1:9001''\<rparr> running_state
           = (Return None,
              except_generic (Exn AddressException ''AddressAlreadySet'')
                (logger INFO (Text (''Received a CommunicateAddress request for session_id '' @ ''S1''
                   @ '' and address '' @ ''10.0.0.1:9001'')) running_state))"
    using CommunicateAddress_raise [of register_address_for_session
        "\<lparr>session_id = ''S1'', AddressRequest.address = ''10.0.0.1:9001''\<rparr>" running_state
        "Exn AddressException ''AddressAlreadySet''"] r
    by simp
  show ?thesis
    by (simp add: r c except_generic_observed try_except_raise except_classified_observed)
qed

subsection \<open>What the handler boundary catches\<close>








subsection \<open>The error-injection mode\<close>

lemma store_option_defective:
  "defective (foldl store_option ns opts) = (defective ns \<or> Opt_defective \<in> set opts)"
proof (induction opts arbitrary: ns)
  case Nil
  show ?case by simp
next
  case (Cons opt opts)
  show ?case
    by (cases opt) (simp_all add: Cons.IH)
qed

text \<open>
  C9. After the start of \<open>serve\<close> the global \<open>DEFECTIVE\<close> is true exactly when the
  option \<open>--defective\<close> occurs on the command line. A \<open>SessionRun\<close> call on a server
  that is not shutting down returns two fingerprints: with \<open>DEFECTIVE\<close> off both are
  the placeholder (content \<open>00\<close>); with \<open>DEFECTIVE\<close> on exactly one of the two differs
  from the placeholder.
\<close>

theorem defective_is_opt_in:
  "DEFECTIVE (serve_start (parse_args opts)) = (Opt_defective \<in> set opts)
   \<and> (\<not> shutting_down (session_registry_manager s) \<longrightarrow>
        (\<exists>r. SessionRun rq s = (Return (Some r), s)
           \<and> length (hashes r) = 2
           \<and> (\<not> DEFECTIVE s \<longrightarrow> hashes r = [\<lparr>content = [0x00]\<rparr>, \<lparr>content = [0x00]\<rparr>])
           \<and> (DEFECTIVE s \<longrightarrow>
                length (filter (\<lambda>h. h \<noteq> \<lparr>content = [0x00]\<rparr>) (hashes r)) = 1)))"
  by (simp add: serve_start_def parse_args_def store_option_defective module_DEFECTIVE_def
        SessionRun_running)

theorem defective_is_opt_in_witness:
  "\<not> DEFECTIVE (serve_start (parse_args [Opt_address ''0.0.0.0'', Opt_port ''50052'']))
   \<and> \<not> shutting_down (session_registry_manager
          (serve_start (parse_args [Opt_address ''0.0.0.0'', Opt_port ''50052''])))
   \<and> (\<exists>r. SessionRun \<lparr>session_id = ''S1'', final_cycles = [100, 200]\<rparr>
              (serve_start (parse_args [Opt_address ''0.0.0.0'', Opt_port ''50052'']))
            = (Return (Some r), serve_start (parse_args [Opt_address ''0.0.0.0'', Opt_port ''50052'']))
          \<and> hashes r = [\<lparr>content = [0x00]\<rparr>, \<lparr>content = [0x00]\<rparr>])
   \<and> DEFECTIVE (serve_start (parse_args [Opt_defective]))
   \<and> \<not> shutting_down (session_registry_manager (serve_start (parse_args [Opt_defective])))
   \<and> (\<exists>r. SessionRun \<lparr>session_id = ''S1'', final_cycles = [100, 200]\<rparr>
              (serve_start (parse_args [Opt_defective]))
            = (Return (Some r), serve_start (parse_args [Opt_defective]))
          \<and> length (hashes r) = 2
          \<and> length (filter (\<lambda>h. h \<noteq> \<lparr>content = [0x00]\<rparr>) (hashes r)) = 1)"
proof -
  have run: "\<not> shutting_down (session_registry_manager (serve_start args))" for args
    by (simp add: serve_start_def)
  have off: "\<not> DEFECTIVE (serve_start (parse_args [Opt_address ''0.0.0.0'', Opt_port ''50052'']))
     \<and> (\<exists>r. SessionRun \<lparr>session_id = ''S1'', final_cycles = [100, 200]\<rparr>
              (serve_start (parse_args [Opt_address ''0.0.0.0'', Opt_port ''50052'']))
            = (Return (Some r), serve_start (parse_args [Opt_address ''0.0.0.0'', Opt_port ''50052'']))
          \<and> hashes r = [\<lparr>content = [0x00]\<rparr>, \<lparr>content = [0x00]\<rparr>])"
    using run defective_is_opt_in [of "[Opt_address ''0.0.0.0'', Opt_port ''50052'']"
        "serve_start (parse_args [Opt_address ''0.0.0.0'', Opt_port ''50052''])"
        "\<lparr>session_id = ''S1'', final_cycles = [100, 200]\<rparr>"]
    by auto
  have on: "DEFECTIVE (serve_start (parse_args [Opt_defective]))
     \<and> (\<exists>r. SessionRun \<lparr>session_id = ''S1'', final_cycles = [100, 200]\<rparr>
              (serve_start (parse_args [Opt_defective]))
            = (Return (Some r), serve_start (parse_args [Opt_defective]))
          \<and> length (hashes r) = 2
          \<and> length (filter (\<lambda>h. h \<noteq> \<lparr>content = [0x00]\<rparr>) (hashes r)) = 1)"
    using run defective_is_opt_in [of "[Opt_defective]"
        "serve_start (parse_args [Opt_defective])"
        "\<lparr>session_id = ''S1'', final_cycles = [100, 200]\<rparr>"]
    by auto
  from off on run show ?thesis by blast
qed

subsection \<open>The response of SessionRun does not depend on the request\<close>

text \<open>
  C10. Two \<open>SessionRun\<close> calls on servers that are not shutting down and have the same
  value of \<open>DEFECTIVE\<close> return the same response, a result and not \<open>None\<close>, whatever
  the session ids and the final cycles of the two requests are.
\<close>

theorem SessionRun_ignores_request:
  assumes "\<not> shutting_down (session_registry_manager s1)"
    and "\<not> shutting_down (session_registry_manager s2)"
    and "DEFECTIVE s1 = DEFECTIVE s2"
  shows "fst (SessionRun rq1 s1) = fst (SessionRun rq2 s2)
       \<and> (\<exists>r. fst (SessionRun rq1 s1) = Return (Some r))"
  using assms by (simp add: SessionRun_running)

theorem SessionRun_ignores_request_witness:
  "\<not> shutting_down (session_registry_manager running_state)
   \<and> \<not> shutting_down (session_registry_manager (serve_start (parse_args [Opt_port ''50052''])))
   \<and> DEFECTIVE running_state = DEFECTIVE (serve_start (parse_args [Opt_port ''50052'']))
   \<and> fst (SessionRun \<lparr>session_id = ''S1'', final_cycles = [100, 200]\<rparr> running_state)
       = fst (SessionRun \<lparr>session_id = ''S2'', final_cycles = []\<rparr>
               (serve_start (parse_args [Opt_port ''50052''])))
   \<and> (\<exists>r. fst (SessionRun \<lparr>session_id = ''S1'', final_cycles = [100, 200]\<rparr> running_state)
             = Return (Some r))"
proof -
  have a: "\<not> shutting_down (session_registry_manager running_state)"
    by (simp add: running_state_def)
  have b: "\<not> shutting_down (session_registry_manager (serve_start (parse_args [Opt_port ''50052''])))"
    by (simp add: serve_start_def)
  have c: "DEFECTIVE running_state = DEFECTIVE (serve_start (parse_args [Opt_port ''50052'']))"
    by (simp add: running_state_def serve_start_def parse_args_def module_DEFECTIVE_def)
  show ?thesis
    using a b c SessionRun_ignores_request [OF a b c,
        of "\<lparr>session_id = ''S1'', final_cycles = [100, 200]\<rparr>"
           "\<lparr>session_id = ''S2'', final_cycles = []\<rparr>"]
    by blast
qed


subsection \<open>The drain of the registry at shutdown\<close>

lemma expected_call_absent: "map_of reg sid = None \<Longrightarrow> expected_call reg sid = None"
  by (simp add: expected_call_def)

lemma expected_call_unset:
  "map_of reg sid = Some entry \<Longrightarrow> \<not> truthy (address entry) \<Longrightarrow> expected_call reg sid = None"
  by (simp add: expected_call_def)

lemma expected_call_addressed:
  "map_of reg sid = Some entry \<Longrightarrow> truthy (address entry) \<Longrightarrow>
   expected_call reg sid = Some (sid, the (address entry))"
  by (simp add: expected_call_def)

lemma expected_call_fst: "expected_call reg k = Some c \<Longrightarrow> fst c = k"
  by (auto simp: expected_call_def split: option.splits if_splits)

lemma expected_call_address_set: "(expected_call reg k \<noteq> None) = address_set reg k"
  by (simp add: expected_call_def address_set_def split: option.splits)

lemma address_set_key: "address_set reg sid \<Longrightarrow> sid \<in> fst ` set reg"
  by (auto simp: address_set_def split: option.splits dest: map_of_SomeD intro: rev_image_eqI)

lemma stop_calls_append: "stop_calls (xs @ ys) = stop_calls xs @ stop_calls ys"
  by (induction xs rule: stop_calls.induct) simp_all

text \<open>
  Whatever the stop primitive does, the calls the drain makes are an initial part of the
  calls it would make if it ran over all keys.
\<close>

lemma drain_calls_prefix:
  "prefix (stop_calls (snd (drain stop reg ks))) (List.map_filter (expected_call reg) ks)"
proof (induction ks)
  case Nil
  show ?case by simp
next
  case (Cons sid ks)
  show ?case
  proof (cases "map_of reg sid")
    case None
    then show ?thesis by (simp add: expected_call_absent)
  next
    case (Some entry)
    show ?thesis
    proof (cases "truthy (address entry)")
      case False
      with Some Cons show ?thesis
        by (simp add: expected_call_unset stop_calls_append split_beta)
    next
      case True
      with Some Cons show ?thesis
        by (cases "stop sid (the (address entry))")
           (simp_all add: expected_call_addressed stop_calls_append split_beta)
    qed
  qed
qed

text \<open>
  When no call the drain makes raises, the drain runs over all keys; and a drain that
  ran over all keys made every call.
\<close>

lemma drain_completes:
  assumes "\<forall>k entry a. k \<in> set ks \<and> map_of reg k = Some entry \<and> address entry = Some a \<and> a \<noteq> []
             \<longrightarrow> stop k a = None"
    and "set ks \<subseteq> fst ` set reg"
  shows "fst (drain stop reg ks) = None"
  using assms
proof (induction ks)
  case Nil
  show ?case by simp
next
  case (Cons sid ks)
  from Cons.prems have "sid \<in> fst ` set reg" by simp
  then obtain entry where e: "map_of reg sid = Some entry"
    by (metis map_of_eq_None_iff not_Some_eq)
  from Cons have IH: "fst (drain stop reg ks) = None" by auto
  show ?case
  proof (cases "truthy (address entry)")
    case False
    with e IH show ?thesis by (simp add: split_beta)
  next
    case True
    then obtain a where a: "address entry = Some a" "a \<noteq> []"
      by (cases "address entry") simp_all
    with e Cons.prems(1) have "stop sid a = None" by simp
    with e a IH show ?thesis by (simp add: split_beta)
  qed
qed

lemma drain_ran_calls:
  "fst (drain stop reg ks) = None \<Longrightarrow>
   stop_calls (snd (drain stop reg ks)) = List.map_filter (expected_call reg) ks"
proof (induction ks)
  case Nil
  show ?case by simp
next
  case (Cons sid ks)
  show ?case
  proof (cases "map_of reg sid")
    case None
    with Cons.prems show ?thesis by simp
  next
    case (Some entry)
    show ?thesis
    proof (cases "truthy (address entry)")
      case False
      with Some Cons show ?thesis
        by (simp add: expected_call_unset stop_calls_append split_beta)
    next
      case True
      with Some Cons show ?thesis
        by (cases "stop sid (the (address entry))")
           (simp_all add: expected_call_addressed stop_calls_append split_beta)
    qed
  qed
qed

lemma count_expected_calls:
  "distinct ks \<Longrightarrow>
   length (filter (\<lambda>c. fst c = sid) (List.map_filter (expected_call reg) ks)) =
     (if sid \<in> set ks \<and> address_set reg sid then 1 else 0)"
proof (induction ks)
  case Nil
  show ?case by simp
next
  case (Cons k ks)
  then show ?case
    using expected_call_address_set [of reg k]
    by (cases "expected_call reg k") (auto dest: expected_call_fst)
qed

lemma prefix_filter_length:
  "prefix xs ys \<Longrightarrow> length (filter P xs) \<le> length (filter P ys)"
  by (auto simp: prefix_def)

lemma drain_append:
  "fst (drain stop reg pre) = None \<Longrightarrow>
   drain stop reg (pre @ ks) =
     (fst (drain stop reg ks), snd (drain stop reg pre) @ snd (drain stop reg ks))"
proof (induction pre)
  case Nil
  show ?case by simp
next
  case (Cons k pre)
  show ?case
  proof (cases "map_of reg k")
    case None
    with Cons.prems show ?thesis by simp
  next
    case (Some entry)
    show ?thesis
    proof (cases "truthy (address entry)")
      case False
      with Some Cons show ?thesis by (simp add: split_beta)
    next
      case True
      with Some Cons show ?thesis
        by (cases "stop k (the (address entry))") (simp_all add: split_beta)
    qed
  qed
qed

lemma serve_shutdown_drain:
  "serve_shutdown stop s =
     (let s3 = (logger DEBUG (Text ''Session registry global lock acquired'')
                 (logger DEBUG (Text ''Acquiring session registry global lock'')
                   (logger INFO (Text (CHR 0x0A # ''Issued to shut down'')) s)))
               \<lparr>session_registry_manager := (session_registry_manager s)\<lparr>shutting_down := True\<rparr>\<rparr>;
          d = drain stop (registry (session_registry_manager s))
                (map fst (registry (session_registry_manager s)))
      in case fst d of
           Some e \<Rightarrow> (Some e, s3\<lparr>trace := trace s3 @ snd d\<rparr>)
         | None \<Rightarrow>
             (None, s3\<lparr>trace := trace s3 @ snd d
                          @ [Server_stop, Log INFO (Text ''Waiting for server to stop''),
                             Log INFO (Text ''Server stopped'')]\<rparr>))"
  by (simp add: serve_shutdown_def Let_def logger_def split: prod.splits option.splits)

text \<open>
  C5, as the code has it. Let the drain run over the keys of the registry in any order
  (\<open>ks\<close> holds each key once). For every session id the stop primitive is called at
  most once when the entry's address is set and never when it is unset or the id has no
  entry, whatever the stop primitive does. When the drain runs to its end, the stop
  primitive is called exactly once for every entry whose address is set; and the drain
  runs to its end when no call it makes raises, that is, when the stop primitive
  returns for every key with its registered address. An address is set when the test
  of the source, \<open>if registry[session_id].address\<close>, succeeds.
\<close>

theorem drain_stops_addressed_entries_once:
  assumes "distinct ks" and "set ks = fst ` set reg"
  shows "times_stopped (snd (drain stop reg ks)) sid \<le> (if address_set reg sid then 1 else 0)
       \<and> (fst (drain stop reg ks) = None \<longrightarrow>
            times_stopped (snd (drain stop reg ks)) sid = (if address_set reg sid then 1 else 0))
       \<and> ((\<forall>k entry a. k \<in> set ks \<and> map_of reg k = Some entry \<and> address entry = Some a \<and> a \<noteq> []
                \<longrightarrow> stop k a = None) \<longrightarrow>
            fst (drain stop reg ks) = None)"
proof -
  have n: "length (filter (\<lambda>c. fst c = sid) (List.map_filter (expected_call reg) ks)) =
             (if address_set reg sid then 1 else 0)"
    using count_expected_calls [OF assms(1), of sid reg] address_set_key [of reg sid] assms(2)
    by auto
  have a: "times_stopped (snd (drain stop reg ks)) sid \<le> (if address_set reg sid then 1 else 0)"
    unfolding times_stopped_def
    using prefix_filter_length [OF drain_calls_prefix, of "\<lambda>c. fst c = sid" stop reg ks] n
    by simp
  have b: "times_stopped (snd (drain stop reg ks)) sid = (if address_set reg sid then 1 else 0)"
    if "fst (drain stop reg ks) = None"
    unfolding times_stopped_def
    using drain_ran_calls [OF that] n by simp
  have c: "fst (drain stop reg ks) = None"
    if "\<forall>k entry a. k \<in> set ks \<and> map_of reg k = Some entry \<and> address entry = Some a \<and> a \<noteq> []
             \<longrightarrow> stop k a = None"
    using drain_completes [OF that] assms(2) by simp
  from a b c show ?thesis by blast
qed

theorem drain_stops_addressed_entries_once_witness:
  "distinct [''S3'', ''S1'', ''S2'']
   \<and> set [''S3'', ''S1'', ''S2''] = fst ` set example_registry
   \<and> (\<lambda>k a. if k = ''S9'' then Some (Exn OtherException ''failed to connect'') else None)
        ''S9'' ''10.0.0.9:9000'' = Some (Exn OtherException ''failed to connect'')
   \<and> address_set example_registry ''S1''
   \<and> fst (drain (\<lambda>k a. if k = ''S9'' then Some (Exn OtherException ''failed to connect'') else None)
            example_registry [''S3'', ''S1'', ''S2'']) = None
   \<and> times_stopped
        (snd (drain (\<lambda>k a. if k = ''S9'' then Some (Exn OtherException ''failed to connect'') else None)
               example_registry [''S3'', ''S1'', ''S2''])) ''S1'' = 1
   \<and> \<not> address_set example_registry ''S2''
   \<and> times_stopped
        (snd (drain (\<lambda>k a. if k = ''S9'' then Some (Exn OtherException ''failed to connect'') else None)
               example_registry [''S3'', ''S1'', ''S2''])) ''S2'' = 0"
proof -
  have d: "distinct [''S3'', ''S1'', ''S2'']" by simp
  have k: "set [''S3'', ''S1'', ''S2''] = fst ` set example_registry"
    by (auto simp: example_registry_def)
  have s1: "address_set example_registry ''S1''"
    by (simp add: address_set_def example_registry_def)
  have s2: "\<not> address_set example_registry ''S2''"
    by (simp add: address_set_def example_registry_def)
  have r: "\<forall>k entry a. k \<in> set [''S3'', ''S1'', ''S2''] \<and> map_of example_registry k = Some entry
             \<and> address entry = Some a \<and> a \<noteq> []
             \<longrightarrow> (\<lambda>k a. if k = ''S9'' then Some (Exn OtherException ''failed to connect'') else None) k a
                 = None"
    by auto
  show ?thesis
    using d k s1 s2 r
      drain_stops_addressed_entries_once [OF d k,
        of "\<lambda>k a. if k = ''S9'' then Some (Exn OtherException ''failed to connect'') else None" "''S1''"]
      drain_stops_addressed_entries_once [OF d k,
        of "\<lambda>k a. if k = ''S9'' then Some (Exn OtherException ''failed to connect'') else None" "''S2''"]
    by simp
qed

text \<open>
  The claim as stated fails when a call of the stop primitive raises: with a stop
  primitive that cannot reach the machine of \<open>S1\<close>, the drain over the keys in the
  order of the registry never calls it for \<open>S3\<close>, whose address is set.
\<close>

theorem drain_exactly_once_counterexample:
  "distinct (map fst example_registry)
   \<and> address_set example_registry ''S3''
   \<and> times_stopped (snd (drain failing_stop example_registry (map fst example_registry))) ''S3'' = 0"
  by (simp add: example_registry_def address_set_def times_stopped_def failing_stop_def)

text \<open>
  C6, as the code has it. No statement of the drain is inside a \<open>try\<close>. When the stop
  primitive raises \<open>e\<close> for the session \<open>sid\<close>, reached after the keys \<open>pre\<close> were
  drained without an exception, the drain ends there with \<open>e\<close>: its events are those of
  \<open>pre\<close>, the two \<open>DEBUG\<close> records for \<open>sid\<close> and the call that raised; no record
  of the error is logged and the stop primitive is called for no key of \<open>post\<close>. In
  \<open>serve\<close> the exception leaves the shutdown branch with the flag set and before
  \<open>server.stop\<close>.
\<close>

theorem drain_ends_when_stop_raises:
  assumes "fst (drain stop reg pre) = None"
    and "map_of reg sid = Some entry" and "address entry = Some a" and "a \<noteq> []"
    and "stop sid a = Some e"
  shows "drain stop reg (pre @ sid # post) =
           (Some e, snd (drain stop reg pre)
                    @ [Log DEBUG (Text (''Acquiring lock for session '' @ sid)),
                       Log DEBUG (Text (''Lock for session '' @ sid @ '' acquired'')),
                       Shutdown_machine sid a])
       \<and> (registry (session_registry_manager s) = reg \<and> map fst reg = pre @ sid # post \<longrightarrow>
            fst (serve_shutdown stop s) = Some e
            \<and> shutting_down (session_registry_manager (snd (serve_shutdown stop s)))
            \<and> trace (snd (serve_shutdown stop s)) =
                trace s
                @ [Log INFO (Text (CHR 0x0A # ''Issued to shut down'')),
                   Log DEBUG (Text ''Acquiring session registry global lock''),
                   Log DEBUG (Text ''Session registry global lock acquired'')]
                @ snd (drain stop reg pre)
                @ [Log DEBUG (Text (''Acquiring lock for session '' @ sid)),
                   Log DEBUG (Text (''Lock for session '' @ sid @ '' acquired'')),
                   Shutdown_machine sid a])"
proof -
  have d: "drain stop reg (pre @ sid # post) =
           (Some e, snd (drain stop reg pre)
                    @ [Log DEBUG (Text (''Acquiring lock for session '' @ sid)),
                       Log DEBUG (Text (''Lock for session '' @ sid @ '' acquired'')),
                       Shutdown_machine sid a])"
    using assms by (simp add: drain_append)
  have "fst (serve_shutdown stop s) = Some e
            \<and> shutting_down (session_registry_manager (snd (serve_shutdown stop s)))
            \<and> trace (snd (serve_shutdown stop s)) =
                trace s
                @ [Log INFO (Text (CHR 0x0A # ''Issued to shut down'')),
                   Log DEBUG (Text ''Acquiring session registry global lock''),
                   Log DEBUG (Text ''Session registry global lock acquired'')]
                @ snd (drain stop reg pre)
                @ [Log DEBUG (Text (''Acquiring lock for session '' @ sid)),
                   Log DEBUG (Text (''Lock for session '' @ sid @ '' acquired'')),
                   Shutdown_machine sid a]"
    if "registry (session_registry_manager s) = reg" and "map fst reg = pre @ sid # post"
    using that d by (simp add: serve_shutdown_drain logger_def)
  with d show ?thesis by blast
qed

theorem drain_ends_when_stop_raises_witness:
  "fst (drain failing_stop example_registry []) = None
   \<and> map_of example_registry ''S1'' = Some \<lparr>address = Some ''10.0.0.1:9000''\<rparr>
   \<and> address \<lparr>address = Some ''10.0.0.1:9000''\<rparr> = Some ''10.0.0.1:9000''
   \<and> ''10.0.0.1:9000'' \<noteq> []
   \<and> failing_stop ''S1'' ''10.0.0.1:9000'' = Some (Exn OtherException ''failed to connect'')
   \<and> registry (session_registry_manager running_state) = example_registry
   \<and> map fst example_registry = [] @ ''S1'' # [''S2'', ''S3'']
   \<and> drain failing_stop example_registry ([] @ ''S1'' # [''S2'', ''S3'']) =
       (Some (Exn OtherException ''failed to connect''),
        [Log DEBUG (Text ''Acquiring lock for session S1''),
         Log DEBUG (Text ''Lock for session S1 acquired''),
         Shutdown_machine ''S1'' ''10.0.0.1:9000''])
   \<and> fst (serve_shutdown failing_stop running_state) = Some (Exn OtherException ''failed to connect'')
   \<and> shutting_down (session_registry_manager (snd (serve_shutdown failing_stop running_state)))"
proof -
  have h1: "fst (drain failing_stop example_registry []) = None" by simp
  have h2: "map_of example_registry ''S1'' = Some \<lparr>address = Some ''10.0.0.1:9000''\<rparr>"
    by (simp add: example_registry_def)
  have h3: "address \<lparr>address = Some ''10.0.0.1:9000''\<rparr> = Some ''10.0.0.1:9000''" by simp
  have h4: "''10.0.0.1:9000'' \<noteq> []" by simp
  have h5: "failing_stop ''S1'' ''10.0.0.1:9000'' = Some (Exn OtherException ''failed to connect'')"
    by (simp add: failing_stop_def)
  have h6: "registry (session_registry_manager running_state) = example_registry"
    by (simp add: running_state_def)
  have h7: "map fst example_registry = [] @ ''S1'' # [''S2'', ''S3'']"
    by (simp add: example_registry_def)
  show ?thesis
    using h1 h2 h3 h4 h5 h6 h7
      drain_ends_when_stop_raises [OF h1 h2 h3 h4 h5, of "[''S2'', ''S3'']" running_state]
    by simp
qed

text \<open>
  The claim as stated fails: with the stop primitive that raises for \<open>S1\<close>, the
  shutdown branch ends with that exception; the session \<open>S3\<close>, drained after \<open>S1\<close>
  and with its address set, is never stopped, no \<open>ERROR\<close> record is logged and the
  server is not stopped.
\<close>

theorem drain_continues_counterexample:
  "serve_shutdown failing_stop running_state =
     (Some (Exn OtherException ''failed to connect''),
      running_state
        \<lparr>session_registry_manager := \<lparr>shutting_down = True, registry = example_registry\<rparr>,
         trace := [Log INFO (Text (CHR 0x0A # ''Issued to shut down'')),
                   Log DEBUG (Text ''Acquiring session registry global lock''),
                   Log DEBUG (Text ''Session registry global lock acquired''),
                   Log DEBUG (Text ''Acquiring lock for session S1''),
                   Log DEBUG (Text ''Lock for session S1 acquired''),
                   Shutdown_machine ''S1'' ''10.0.0.1:9000'']\<rparr>)
   \<and> address_set example_registry ''S3''"
  by (simp add: serve_shutdown_def running_state_def example_registry_def failing_stop_def
        logger_def address_set_def)

end
